theory Spec2Isabelle
  imports Main "HOL-Library.AList"
begin

section \<open>JavaScript values\<close>

text \<open>
  The handlers work on loosely typed values: whatever \<^verbatim>\<open>JSON.parse\<close> returns, plus
  \<^verbatim>\<open>undefined\<close> for a property that is not there. An object is the list of its own
  properties, each key once (\<^verbatim>\<open>JSON.parse\<close> keeps one value per key). Numbers are
  the integers; no handler computes with a number.
\<close>

datatype jsval =
    Undefined
  | Null
  | Bool bool
  | Num int
  | Str string
  | Arr "jsval list"
  | Obj "(string \<times> jsval) list"

datatype js_error = SyntaxError | TypeError

text \<open>\<^verbatim>\<open>if (v)\<close> and \<^verbatim>\<open>!v\<close>: the falsy values are undefined, null, false, 0 and
  the empty string; every object and array is truthy.\<close>

fun truthy :: "jsval \<Rightarrow> bool" where
  "truthy Undefined = False"
| "truthy Null = False"
| "truthy (Bool b) = b"
| "truthy (Num n) = (n \<noteq> 0)"
| "truthy (Str s) = (s \<noteq> [])"
| "truthy (Arr xs) = True"
| "truthy (Obj ps) = True"

text \<open>
  Reading a property, as \<^verbatim>\<open>v.name\<close> and as the destructuring \<^verbatim>\<open>const { name } = v\<close>
  do: on undefined and null it throws a TypeError, on an object it gives the property or
  undefined, and on the other values it gives undefined for the property names the
  program uses (none of them is a property of a string, a number, a boolean or an array).
\<close>

fun get_prop :: "jsval \<Rightarrow> string \<Rightarrow> js_error + jsval" where
  "get_prop Undefined p = Inl TypeError"
| "get_prop Null p = Inl TypeError"
| "get_prop (Obj ps) p = Inr (case map_of ps p of None \<Rightarrow> Undefined | Some v \<Rightarrow> v)"
| "get_prop v p = Inr Undefined"

fun show_nat :: "nat \<Rightarrow> string" where
  "show_nat n =
     (if n < 10 then [''0123456789'' ! n]
      else show_nat (n div 10) @ [''0123456789'' ! (n mod 10)])"

declare show_nat.simps [simp del]

fun joinWith :: "string \<Rightarrow> string list \<Rightarrow> string" where
  "joinWith sep [] = []"
| "joinWith sep [x] = x"
| "joinWith sep (x # y # ys) = x @ sep @ joinWith sep (y # ys)"

text \<open>The string a template literal \<^verbatim>\<open>`${v}`\<close> puts in for a value.\<close>

fun ToString :: "jsval \<Rightarrow> string" where
  "ToString Undefined = ''undefined''"
| "ToString Null = ''null''"
| "ToString (Bool b) = (if b then ''true'' else ''false'')"
| "ToString (Num n) = (if n < 0 then CHR ''-'' # show_nat (nat (- n)) else show_nat (nat n))"
| "ToString (Str s) = s"
| "ToString (Arr xs) =
     joinWith '',''
       (map (\<lambda>x. case x of Undefined \<Rightarrow> [] | Null \<Rightarrow> [] | _ \<Rightarrow> ToString x) xs)"
| "ToString (Obj ps) = ''[object Object]''"


section \<open>The system clock: \<^verbatim>\<open>new Date().toISOString()\<close>\<close>

text \<open>
  A Date holds a time value: milliseconds since 1970-01-01T00:00:00Z, at most
  8.64e15 in absolute value. The functions below are the ones of the ECMAScript
  specification (Day, DaysInYear, DayFromYear, YearFromTime, InLeapYear,
  MonthFromTime, DateFromTime, HourFromTime, MinFromTime, SecFromTime, msFromTime).
  Integer \<open>div\<close> and \<open>mod\<close> round towards minus infinity, as the specification's floor
  and modulo do.
\<close>

definition msPerDay :: int where
  "msPerDay = 86400000"

definition maxTimeValue :: int where
  "maxTimeValue = 8640000000000000"

definition Day :: "int \<Rightarrow> int" where
  "Day t = t div msPerDay"

definition DaysInYear :: "int \<Rightarrow> int" where
  "DaysInYear y =
     (if y mod 4 \<noteq> 0 then 365
      else if y mod 100 \<noteq> 0 then 366
      else if y mod 400 \<noteq> 0 then 365
      else 366)"

definition DayFromYear :: "int \<Rightarrow> int" where
  "DayFromYear y =
     365 * (y - 1970) + (y - 1969) div 4 - (y - 1901) div 100 + (y - 1601) div 400"

text \<open>
  The specification gives YearFromTime as the largest year \<open>y\<close> with
  \<open>DayFromYear y \<le> Day t\<close>. It is computed here in closed form, counting whole cycles of
  400, 100, 4 and 1 years from 0001-01-01 (day \<open>-719162\<close>); lemma
  \<open>YearFromTime_largest\<close> below shows that this is the year of the specification.
\<close>

definition YearFromTime :: "int \<Rightarrow> int" where
  "YearFromTime t =
     (let z = Day t + 719162;
          n400 = z div 146097;
          r = z mod 146097;
          n100 = min 3 (r div 36524);
          r2 = r - 36524 * n100;
          n4 = r2 div 1461;
          r3 = r2 mod 1461;
          n1 = min 3 (r3 div 365)
      in 1 + 400 * n400 + 100 * n100 + 4 * n4 + n1)"

definition DayWithinYear :: "int \<Rightarrow> int" where
  "DayWithinYear t = Day t - DayFromYear (YearFromTime t)"

definition InLeapYear :: "int \<Rightarrow> int" where
  "InLeapYear t = (if DaysInYear (YearFromTime t) = 365 then 0 else 1)"

definition MonthFromTime :: "int \<Rightarrow> int" where
  "MonthFromTime t =
     (let d = DayWithinYear t; l = InLeapYear t in
      if d < 31 then 0
      else if d < 59 + l then 1
      else if d < 90 + l then 2
      else if d < 120 + l then 3
      else if d < 151 + l then 4
      else if d < 181 + l then 5
      else if d < 212 + l then 6
      else if d < 243 + l then 7
      else if d < 273 + l then 8
      else if d < 304 + l then 9
      else if d < 334 + l then 10
      else 11)"

definition DateFromTime :: "int \<Rightarrow> int" where
  "DateFromTime t =
     (let d = DayWithinYear t; l = InLeapYear t; m = MonthFromTime t in
      if m = 0 then d + 1
      else if m = 1 then d - 30
      else if m = 2 then d - 58 - l
      else if m = 3 then d - 89 - l
      else if m = 4 then d - 119 - l
      else if m = 5 then d - 150 - l
      else if m = 6 then d - 180 - l
      else if m = 7 then d - 211 - l
      else if m = 8 then d - 242 - l
      else if m = 9 then d - 272 - l
      else if m = 10 then d - 303 - l
      else d - 333 - l)"

definition HourFromTime :: "int \<Rightarrow> int" where
  "HourFromTime t = (t div 3600000) mod 24"

definition MinFromTime :: "int \<Rightarrow> int" where
  "MinFromTime t = (t div 60000) mod 60"

definition SecFromTime :: "int \<Rightarrow> int" where
  "SecFromTime t = (t div 1000) mod 60"

definition msFromTime :: "int \<Rightarrow> int" where
  "msFromTime t = t mod 1000"

definition digit :: "int \<Rightarrow> char" where
  "digit n = ''0123456789'' ! nat (n mod 10)"

definition pad2 :: "int \<Rightarrow> string" where
  "pad2 n = [digit (n div 10), digit n]"

definition pad3 :: "int \<Rightarrow> string" where
  "pad3 n = [digit (n div 100), digit (n div 10), digit n]"

definition pad4 :: "int \<Rightarrow> string" where
  "pad4 n = [digit (n div 1000), digit (n div 100), digit (n div 10), digit n]"

definition pad6 :: "int \<Rightarrow> string" where
  "pad6 n = [digit (n div 100000), digit (n div 10000), digit (n div 1000),
             digit (n div 100), digit (n div 10), digit n]"

text \<open>Years 0 to 9999 are written with four digits, the others with a sign and six.\<close>

definition year_string :: "int \<Rightarrow> string" where
  "year_string y =
     (if 0 \<le> y \<and> y \<le> 9999 then pad4 y
      else if y < 0 then CHR ''-'' # pad6 (- y)
      else CHR ''+'' # pad6 y)"

definition toISOString :: "int \<Rightarrow> string" where
  "toISOString t =
     year_string (YearFromTime t) @ ''-'' @ pad2 (MonthFromTime t + 1) @ ''-''
       @ pad2 (DateFromTime t) @ ''T'' @ pad2 (HourFromTime t) @ '':''
       @ pad2 (MinFromTime t) @ '':'' @ pad2 (SecFromTime t) @ ''.''
       @ pad3 (msFromTime t) @ ''Z''"


text \<open>
  What a valid timestamp is: the date-time format \<^verbatim>\<open>YYYY-MM-DDTHH:mm:ss.sssZ\<close> of
  ISO 8601, with the expanded year \<^verbatim>\<open>+YYYYYY\<close> or \<^verbatim>\<open>-YYYYYY\<close> (never
  \<^verbatim>\<open>-000000\<close>), a month from 01 to 12, a day that the month of that year has, an hour
  up to 23 and minutes and seconds up to 59.
\<close>

definition is_digit :: "char \<Rightarrow> bool" where
  "is_digit c = (c \<in> set ''0123456789'')"

definition digit_value :: "char \<Rightarrow> int" where
  "digit_value c =
     (case map_of (zip ''0123456789'' [0, 1, 2, 3, 4, 5, 6, 7, 8, 9]) c of
        None \<Rightarrow> 0
      | Some n \<Rightarrow> n)"

definition number :: "string \<Rightarrow> int" where
  "number cs = foldl (\<lambda>n c. 10 * n + digit_value c) 0 cs"

definition days_in_month :: "int \<Rightarrow> int \<Rightarrow> int" where
  "days_in_month y m =
     (if m = 2 then (if DaysInYear y = 366 then 29 else 28)
      else if m = 4 \<or> m = 6 \<or> m = 9 \<or> m = 11 then 30
      else 31)"

definition is_date_time :: "int \<Rightarrow> string \<Rightarrow> bool" where
  "is_date_time y r =
     (length r = 20
      \<and> r ! 0 = CHR ''-'' \<and> r ! 3 = CHR ''-'' \<and> r ! 6 = CHR ''T'' \<and> r ! 9 = CHR '':''
      \<and> r ! 12 = CHR '':'' \<and> r ! 15 = CHR ''.'' \<and> r ! 19 = CHR ''Z''
      \<and> list_all is_digit
            [r ! 1, r ! 2, r ! 4, r ! 5, r ! 7, r ! 8, r ! 10, r ! 11, r ! 13, r ! 14,
             r ! 16, r ! 17, r ! 18]
      \<and> 1 \<le> number [r ! 1, r ! 2] \<and> number [r ! 1, r ! 2] \<le> 12
      \<and> 1 \<le> number [r ! 4, r ! 5]
      \<and> number [r ! 4, r ! 5] \<le> days_in_month y (number [r ! 1, r ! 2])
      \<and> number [r ! 7, r ! 8] \<le> 23
      \<and> number [r ! 10, r ! 11] \<le> 59
      \<and> number [r ! 13, r ! 14] \<le> 59)"

definition is_iso8601 :: "string \<Rightarrow> bool" where
  "is_iso8601 s =
     (case s of
        [] \<Rightarrow> False
      | c # cs \<Rightarrow>
          if c = CHR ''+'' then
            length cs = 26 \<and> list_all is_digit (take 6 cs)
            \<and> is_date_time (number (take 6 cs)) (drop 6 cs)
          else if c = CHR ''-'' then
            length cs = 26 \<and> list_all is_digit (take 6 cs) \<and> number (take 6 cs) \<noteq> 0
            \<and> is_date_time (- number (take 6 cs)) (drop 6 cs)
          else
            length s = 24 \<and> list_all is_digit (take 4 s)
            \<and> is_date_time (number (take 4 s)) (drop 4 s))"


section \<open>The keyed store\<close>

text \<open>
  The handlers reach the table \<^verbatim>\<open>ItemsTable\<close> through
  \<^verbatim>\<open>AWS.DynamoDB.DocumentClient\<close>. Its partition key is \<^verbatim>\<open>ItemID\<close>, a string; the
  handlers give keys of \<^verbatim>\<open>ItemID\<close> alone, so the table has no sort key. The client
  and the service are not part of the repository; they are modelled here by what their
  four operations are documented to do:
  \<^item> \<^verbatim>\<open>put\<close> creates the item or replaces the item with the same key;
  \<^item> \<^verbatim>\<open>get\<close> returns the item, or no \<^verbatim>\<open>Item\<close> when the key is absent;
  \<^item> \<^verbatim>\<open>update\<close> edits the attributes named in its \<^verbatim>\<open>set\<close> clauses, adding the item
    when the key is absent, and with \<^verbatim>\<open>ReturnValues: 'ALL_NEW'\<close> returns all attributes
    after the update;
  \<^item> \<^verbatim>\<open>delete\<close> removes the item, and succeeds when there is none;
  \<^item> a key that is missing, not a string or empty is rejected (a validation
    exception), as is an update expression that names a reserved word, names the key
    attribute, or uses a value placeholder that is not given;
  \<^item> the client leaves out attributes whose value is undefined.

  A call is a promise that resolves or rejects. \<open>healthy\<close> says whether the service
  answers at all; when it does not, every call rejects. The reserved words of the
  service's expression language are a parameter of the store (\<open>reserved\<close>, in upper
  case). The table is a map from key to item, and a read sees the last write: service
  quotas (the sizes of keys and items, throughput) and the delay of replication are not
  modelled. \<open>calls\<close> records every request handed to the client, in order.
\<close>

type_synonym item = "(string \<times> jsval) list"

datatype request =
    PutRequest item
  | GetRequest item
  | UpdateRequest item "(string \<times> string) list" "(string \<times> jsval) list"
  | DeleteRequest item

datatype fault = ServiceFault | ValidationException

record backend =
  table :: "string \<rightharpoonup> item"
  healthy :: bool
  reserved :: "string list"
  calls :: "request list"

definition marshal :: "item \<Rightarrow> item" where
  "marshal m = filter (\<lambda>(a, v). v \<noteq> Undefined) m"

definition key_of :: "item \<Rightarrow> fault + string" where
  "key_of m =
     (case map_of (marshal m) ''ItemID'' of
        Some (Str k) \<Rightarrow> if k = [] then Inl ValidationException else Inr k
      | _ \<Rightarrow> Inl ValidationException)"

definition upper_char :: "char \<Rightarrow> char" where
  "upper_char c =
     (case map_of (zip ''abcdefghijklmnopqrstuvwxyz'' ''ABCDEFGHIJKLMNOPQRSTUVWXYZ'') c of
        None \<Rightarrow> c
      | Some u \<Rightarrow> u)"

definition is_reserved :: "backend \<Rightarrow> string \<Rightarrow> bool" where
  "is_reserved s a = (map upper_char a \<in> set (reserved s))"

definition logged :: "backend \<Rightarrow> request \<Rightarrow> backend" where
  "logged s r = s\<lparr>calls := calls s @ [r]\<rparr>"

definition dynamoDb_put :: "backend \<Rightarrow> item \<Rightarrow> backend \<times> (fault + unit)" where
  "dynamoDb_put s Item =
     (let s1 = logged s (PutRequest Item) in
      if \<not> healthy s then (s1, Inl ServiceFault)
      else case key_of Item of
             Inl f \<Rightarrow> (s1, Inl f)
           | Inr k \<Rightarrow> (s1\<lparr>table := (table s)(k \<mapsto> marshal Item)\<rparr>, Inr ()))"

text \<open>The result of \<open>get\<close> is \<^verbatim>\<open>result.Item\<close>: the item as an object, or undefined.\<close>

definition dynamoDb_get :: "backend \<Rightarrow> item \<Rightarrow> backend \<times> (fault + jsval)" where
  "dynamoDb_get s Key =
     (let s1 = logged s (GetRequest Key) in
      if \<not> healthy s then (s1, Inl ServiceFault)
      else case key_of Key of
             Inl f \<Rightarrow> (s1, Inl f)
           | Inr k \<Rightarrow> (s1, Inr (case table s k of None \<Rightarrow> Undefined | Some it \<Rightarrow> Obj it)))"

text \<open>
  An update expression \<^verbatim>\<open>set A = :a, B = :b\<close> is the list of its clauses
  \<open>[(A, :a), (B, :b)]\<close>. \<open>set_clause_ok\<close> is the validation of one clause,
  \<open>apply_set\<close> its effect on the item.
\<close>

definition set_clause_ok :: "backend \<Rightarrow> item \<Rightarrow> string \<times> string \<Rightarrow> bool" where
  "set_clause_ok s vals c =
     (\<not> is_reserved s (fst c) \<and> fst c \<noteq> ''ItemID'' \<and> map_of vals (snd c) \<noteq> None)"

definition apply_set :: "item \<Rightarrow> string \<times> string \<Rightarrow> item \<Rightarrow> item" where
  "apply_set vals c it =
     (case map_of vals (snd c) of None \<Rightarrow> it | Some v \<Rightarrow> AList.update (fst c) v it)"

text \<open>The result of \<open>update\<close> is \<^verbatim>\<open>result.Attributes\<close> under \<^verbatim>\<open>ALL_NEW\<close>.\<close>

definition dynamoDb_update ::
  "backend \<Rightarrow> item \<Rightarrow> (string \<times> string) list \<Rightarrow> (string \<times> jsval) list
     \<Rightarrow> backend \<times> (fault + jsval)" where
  "dynamoDb_update s Key UpdateExpression ExpressionAttributeValues =
     (let s1 = logged s (UpdateRequest Key UpdateExpression ExpressionAttributeValues);
          vals = marshal ExpressionAttributeValues in
      if \<not> healthy s then (s1, Inl ServiceFault)
      else case key_of Key of
             Inl f \<Rightarrow> (s1, Inl f)
           | Inr k \<Rightarrow>
               if \<not> list_all (set_clause_ok s vals) UpdateExpression
               then (s1, Inl ValidationException)
               else
                 let old = (case table s k of None \<Rightarrow> [(''ItemID'', Str k)] | Some it \<Rightarrow> it);
                     new = fold (apply_set vals) UpdateExpression old
                 in (s1\<lparr>table := (table s)(k \<mapsto> new)\<rparr>, Inr (Obj new)))"

definition dynamoDb_delete :: "backend \<Rightarrow> item \<Rightarrow> backend \<times> (fault + unit)" where
  "dynamoDb_delete s Key =
     (let s1 = logged s (DeleteRequest Key) in
      if \<not> healthy s then (s1, Inl ServiceFault)
      else case key_of Key of
             Inl f \<Rightarrow> (s1, Inl f)
           | Inr k \<Rightarrow> (s1\<lparr>table := (table s)(k := None)\<rparr>, Inr ()))"


section \<open>The four handlers\<close>

text \<open>
  A handler receives the event of the API gateway. \<open>body\<close> is the request text as
  \<^verbatim>\<open>JSON.parse\<close> sees it: \<open>NotJson\<close> for a text that is not JSON (or no text at
  all, \<^verbatim>\<open>JSON.parse(undefined)\<close>), where it throws a SyntaxError, and \<open>Json v\<close> for
  one that parses to \<open>v\<close> (\<open>Json Null\<close> also for the body \<^verbatim>\<open>null\<close> of a request
  without one). \<open>pathParameters\<close> is an object, or null when the route has none.

  A handler is an \<^verbatim>\<open>async\<close> function: it either returns a response, whose body is the
  value handed to \<^verbatim>\<open>JSON.stringify\<close>, or throws, and then the invocation fails with
  the error.
\<close>

datatype body_text = NotJson | Json jsval

record event =
  body :: body_text
  pathParameters :: jsval

record response =
  statusCode :: nat
  body :: jsval

datatype outcome = Returned response | Thrown js_error

definition JSON_parse :: "body_text \<Rightarrow> js_error + jsval" where
  "JSON_parse b = (case b of NotJson \<Rightarrow> Inl SyntaxError | Json v \<Rightarrow> Inr v)"

definition message :: "string \<Rightarrow> jsval" where
  "message m = Obj [(''message'', Str m)]"

definition error :: "string \<Rightarrow> jsval" where
  "error m = Obj [(''error'', Str m)]"

text \<open>CreateItem; \<open>now\<close> is the time value of \<^verbatim>\<open>new Date()\<close>.\<close>

definition CreateItem :: "backend \<Rightarrow> int \<Rightarrow> event \<Rightarrow> backend \<times> outcome" where
  "CreateItem s now ev =
     (case JSON_parse (event.body ev) of
        Inl e \<Rightarrow> (s, Thrown e)
      | Inr b \<Rightarrow>
         (case get_prop b ''ItemID'' of
            Inl e \<Rightarrow> (s, Thrown e)
          | Inr ItemID \<Rightarrow>
             (case get_prop b ''Name'' of
                Inl e \<Rightarrow> (s, Thrown e)
              | Inr Name \<Rightarrow>
                 (case get_prop b ''Description'' of
                    Inl e \<Rightarrow> (s, Thrown e)
                  | Inr Description \<Rightarrow>
                     (let timestamp = toISOString now;
                          Item = [(''ItemID'', ItemID), (''Name'', Name),
                                  (''Description'', Description),
                                  (''CreatedAt'', Str timestamp)]
                      in case dynamoDb_put s Item of
                           (s', Inr _) \<Rightarrow>
                             (s', Returned \<lparr>statusCode = 201,
                                            body = message ''Item created successfully''\<rparr>)
                         | (s', Inl _) \<Rightarrow>
                             (s', Returned \<lparr>statusCode = 500,
                                            body = error ''Could not create item''\<rparr>))))))"

definition ReadItem :: "backend \<Rightarrow> event \<Rightarrow> backend \<times> outcome" where
  "ReadItem s ev =
     (case get_prop (pathParameters ev) ''ItemID'' of
        Inl e \<Rightarrow> (s, Thrown e)
      | Inr ItemID \<Rightarrow>
         (case dynamoDb_get s [(''ItemID'', ItemID)] of
            (s', Inr Item) \<Rightarrow>
              if \<not> truthy Item
              then (s', Returned \<lparr>statusCode = 404, body = message ''Item not found''\<rparr>)
              else (s', Returned \<lparr>statusCode = 200, body = Item\<rparr>)
          | (s', Inl _) \<Rightarrow>
              (s', Returned \<lparr>statusCode = 500, body = error ''Could not retrieve item''\<rparr>)))"

definition UpdateItem :: "backend \<Rightarrow> event \<Rightarrow> backend \<times> outcome" where
  "UpdateItem s ev =
     (case get_prop (pathParameters ev) ''ItemID'' of
        Inl e \<Rightarrow> (s, Thrown e)
      | Inr ItemID \<Rightarrow>
         (case JSON_parse (event.body ev) of
            Inl e \<Rightarrow> (s, Thrown e)
          | Inr b \<Rightarrow>
             (case get_prop b ''Name'' of
                Inl e \<Rightarrow> (s, Thrown e)
              | Inr Name \<Rightarrow>
                 (case get_prop b ''Description'' of
                    Inl e \<Rightarrow> (s, Thrown e)
                  | Inr Description \<Rightarrow>
                     (case dynamoDb_update s [(''ItemID'', ItemID)]
                             [(''Name'', '':name''), (''Description'', '':description'')]
                             [('':name'', Name), ('':description'', Description)] of
                        (s', Inr Attributes) \<Rightarrow>
                          (s', Returned \<lparr>statusCode = 200, body = Attributes\<rparr>)
                      | (s', Inl _) \<Rightarrow>
                          (s', Returned \<lparr>statusCode = 500,
                                         body = error ''Could not update item''\<rparr>))))))"

definition DeleteItem :: "backend \<Rightarrow> event \<Rightarrow> backend \<times> outcome" where
  "DeleteItem s ev =
     (case get_prop (pathParameters ev) ''ItemID'' of
        Inl e \<Rightarrow> (s, Thrown e)
      | Inr ItemID \<Rightarrow>
         (case dynamoDb_delete s [(''ItemID'', ItemID)] of
            (s', Inr _) \<Rightarrow>
              (s', Returned \<lparr>statusCode = 200, body = message ''Item deleted successfully''\<rparr>)
          | (s', Inl _) \<Rightarrow>
              (s', Returned \<lparr>statusCode = 500, body = error ''Could not delete item''\<rparr>)))"


section \<open>The page: loading an item\<close>

text \<open>
  The click handler of \<^verbatim>\<open>load-item-button\<close>. \<open>itemId\<close> is what \<^verbatim>\<open>prompt\<close> returned
  (\<open>None\<close> when the dialog was cancelled), \<open>fetch\<close> what the network gives for a URL:
  no response, a response whose body is not JSON, or one whose body parses to a value.
  The handler changes the \<^verbatim>\<open>innerHTML\<close> of the element \<^verbatim>\<open>item-output\<close>.
\<close>

datatype fetched = NoResponse | NotJsonResponse | JsonResponse jsval

datatype completion = Completed | Rejected js_error

definition apiBaseUrl :: string where
  "apiBaseUrl = ''https://<api-id>.execute-api.<region>.amazonaws.com/prod/items''"

definition item_markup :: "jsval \<Rightarrow> jsval \<Rightarrow> jsval \<Rightarrow> string" where
  "item_markup i n d =
     [CHR 0x0A] @ ''        <strong>ID:</strong> '' @ ToString i @ ''<br>'' @ [CHR 0x0A]
     @ ''        <strong>Name:</strong> '' @ ToString n @ ''<br>'' @ [CHR 0x0A]
     @ ''        <strong>Description:</strong> '' @ ToString d @ [CHR 0x0A] @ ''      ''"

definition load_item :: "string option \<Rightarrow> (string \<Rightarrow> fetched) \<Rightarrow> string \<Rightarrow> string \<times> completion" where
  "load_item itemId fetch innerHTML =
     (case itemId of
        None \<Rightarrow> (innerHTML, Completed)
      | Some i \<Rightarrow>
          if i = [] then (innerHTML, Completed)
          else
            (case fetch (apiBaseUrl @ ''/'' @ i) of
               NoResponse \<Rightarrow> (innerHTML, Rejected TypeError)
             | NotJsonResponse \<Rightarrow> (innerHTML, Rejected SyntaxError)
             | JsonResponse data \<Rightarrow>
                (case get_prop data ''name'' of
                   Inl e \<Rightarrow> (innerHTML, Rejected e)
                 | Inr name \<Rightarrow>
                     if truthy name
                     then (case (get_prop data ''id'', get_prop data ''description'') of
                             (Inr i', Inr d) \<Rightarrow> (item_markup i' name d, Completed)
                           | _ \<Rightarrow> (innerHTML, Rejected TypeError))
                     else (''Item not found'', Completed))))"


section \<open>Sample requests\<close>

text \<open>
  The inputs of the examples: a store that answers, reserves no word and holds nothing;
  the same store holding item 42; a store whose expression language reserves
  \<^verbatim>\<open>NAME\<close>; and the events of a request on an item, of a create request and of an
  update request.
\<close>

definition empty_store :: backend where
  "empty_store = \<lparr>table = Map.empty, healthy = True, reserved = [], calls = []\<rparr>"

definition widget :: item where
  "widget = [(''ItemID'', Str ''42''), (''Name'', Str ''Widget''),
             (''Description'', Str ''A widget''),
             (''CreatedAt'', Str ''2026-11-03T10:20:34.567Z'')]"

definition widget_store :: backend where
  "widget_store =
     \<lparr>table = [''42'' \<mapsto> widget], healthy = True, reserved = [], calls = []\<rparr>"

definition reserving_store :: backend where
  "reserving_store =
     \<lparr>table = Map.empty, healthy = True, reserved = [''NAME''], calls = []\<rparr>"

definition item_request :: "string \<Rightarrow> event" where
  "item_request k = \<lparr>event.body = Json Null, pathParameters = Obj [(''ItemID'', Str k)]\<rparr>"

definition create_request :: "jsval \<Rightarrow> event" where
  "create_request b = \<lparr>event.body = Json b, pathParameters = Null\<rparr>"

definition update_request :: "string \<Rightarrow> jsval \<Rightarrow> event" where
  "update_request k b = \<lparr>event.body = Json b, pathParameters = Obj [(''ItemID'', Str k)]\<rparr>"


section \<open>The calendar of the time value\<close>

lemma div_cycle: "0 \<le> b \<Longrightarrow> b < c \<Longrightarrow> (a * c + b) div c = (a::int)"
  by simp

lemma mod_cycle: "0 \<le> b \<Longrightarrow> b < c \<Longrightarrow> (a * c + b) mod c = (b::int)"
  by simp

lemma DayFromYear_cycles:
  assumes "0 \<le> n100" "n100 \<le> 3" "0 \<le> n4" "n4 \<le> 24" "0 \<le> n1" "n1 \<le> (3::int)"
  shows "DayFromYear (1 + 400 * n400 + 100 * n100 + 4 * n4 + n1)
           = 146097 * n400 + 36524 * n100 + 1461 * n4 + 365 * n1 - 719162"
proof -
  let ?y = "1 + 400 * n400 + 100 * n100 + 4 * n4 + n1"
  have "?y - 1969 = (100 * n400 + 25 * n100 + n4 - 492) * 4 + n1" by simp
  moreover have "((100 * n400 + 25 * n100 + n4 - 492) * 4 + n1) div 4 = 100 * n400 + 25 * n100 + n4 - 492"
    using assms(5,6) by (intro div_cycle) simp_all
  ultimately have a: "(?y - 1969) div 4 = 100 * n400 + 25 * n100 + n4 - 492"
    by (simp only:)
  have "?y - 1901 = (4 * n400 + n100 - 19) * 100 + (4 * n4 + n1)" by simp
  moreover have "((4 * n400 + n100 - 19) * 100 + (4 * n4 + n1)) div 100 = 4 * n400 + n100 - 19"
    using assms by (intro div_cycle) simp_all
  ultimately have b: "(?y - 1901) div 100 = 4 * n400 + n100 - 19"
    by (simp only:)
  have "?y - 1601 = (n400 - 4) * 400 + (100 * n100 + 4 * n4 + n1)" by simp
  moreover have "((n400 - 4) * 400 + (100 * n100 + 4 * n4 + n1)) div 400 = n400 - 4"
    using assms by (intro div_cycle) simp_all
  ultimately have c: "(?y - 1601) div 400 = n400 - 4"
    by (simp only:)
  show ?thesis unfolding DayFromYear_def a b c by simp
qed

lemma DaysInYear_cycles:
  assumes "0 \<le> n100" "n100 \<le> 3" "0 \<le> n4" "n4 \<le> 24" "0 \<le> n1" "n1 \<le> (3::int)"
  shows "DaysInYear (1 + 400 * n400 + 100 * n100 + 4 * n4 + n1)
           = (if n1 = 3 \<and> (n4 \<noteq> 24 \<or> n100 = 3) then 366 else 365)"
proof -
  let ?y = "1 + 400 * n400 + 100 * n100 + 4 * n4 + n1"
  have y4: "?y = (100 * n400 + 25 * n100 + n4) * 4 + (n1 + 1)" by simp
  have y100: "?y = (4 * n400 + n100) * 100 + (4 * n4 + n1 + 1)" by simp
  have y400: "?y = n400 * 400 + (100 * n100 + 4 * n4 + n1 + 1)" by simp
  show ?thesis
  proof (cases "n1 = 3")
    case False
    then have "n1 + 1 < 4" "0 \<le> n1 + 1" using assms by auto
    then have "?y mod 4 = n1 + 1"
      by (subst y4) (rule mod_cycle)
    then have "?y mod 4 \<noteq> 0" using assms by simp
    then show ?thesis using False by (simp only: DaysInYear_def if_True if_False simp_thms)
  next
    case n1: True
    have m4: "?y mod 4 = 0" by (subst y4) (simp add: n1)
    show ?thesis
    proof (cases "n4 = 24")
      case False
      then have "4 * n4 + n1 + 1 < 100" "0 \<le> 4 * n4 + n1 + 1" using assms by auto
      then have "?y mod 100 = 4 * n4 + n1 + 1"
        by (subst y100) (rule mod_cycle)
      then have "?y mod 100 \<noteq> 0" using assms by simp
      then show ?thesis using False n1 m4 by (simp only: DaysInYear_def if_True if_False simp_thms)
    next
      case n4: True
      have m100: "?y mod 100 = 0" by (subst y100) (simp add: n1 n4)
      show ?thesis
      proof (cases "n100 = 3")
        case False
        then have "100 * n100 + 4 * n4 + n1 + 1 < 400" "0 \<le> 100 * n100 + 4 * n4 + n1 + 1"
          using assms by auto
        then have "?y mod 400 = 100 * n100 + 4 * n4 + n1 + 1"
          by (subst y400) (rule mod_cycle)
        then have "?y mod 400 \<noteq> 0" using assms by simp
        then show ?thesis using False n1 n4 m4 m100
          by (simp only: DaysInYear_def if_True if_False simp_thms)
      next
        case True
        have "?y mod 400 = 0" by (subst y400) (simp add: n1 n4 True)
        then show ?thesis using True n1 n4 m4 m100
          by (simp only: DaysInYear_def if_True if_False simp_thms)
      qed
    qed
  qed
qed

lemma century_split:
  fixes r :: int
  assumes "0 \<le> r" "r \<le> 146096"
  defines "n100 \<equiv> min 3 (r div 36524)"
  shows "0 \<le> n100" "n100 \<le> 3" "0 \<le> r - 36524 * n100" "r - 36524 * n100 \<le> 36524"
    "n100 < 3 \<Longrightarrow> r - 36524 * n100 < 36524"
proof -
  define q where "q = r div 36524"
  define m where "m = r mod 36524"
  have d: "r = 36524 * q + m" "0 \<le> m" "m < 36524"
    by (simp_all add: q_def m_def)
  have q: "0 \<le> q" "q \<le> 4" using d assms(1,2) by linarith+
  have n: "n100 = min 3 q" by (simp add: n100_def q_def)
  show "0 \<le> n100" "n100 \<le> 3" using q n by simp_all
  show "0 \<le> r - 36524 * n100" using d q n by (cases "q \<le> 3") (simp_all add: min_def)
  show "r - 36524 * n100 \<le> 36524" using d q n assms(2) by (cases "q \<le> 3") (simp_all add: min_def)
  show "n100 < 3 \<Longrightarrow> r - 36524 * n100 < 36524" using d q n by (cases "q \<le> 3") (simp_all add: min_def)
qed

lemma year_split:
  fixes r3 :: int
  assumes "0 \<le> r3" "r3 \<le> 1460"
  defines "n1 \<equiv> min 3 (r3 div 365)"
  shows "0 \<le> n1" "n1 \<le> 3" "0 \<le> r3 - 365 * n1" "r3 - 365 * n1 \<le> 365"
    "n1 < 3 \<Longrightarrow> r3 - 365 * n1 < 365"
    "r3 < 1460 \<Longrightarrow> r3 - 365 * n1 < 365"
proof -
  define q where "q = r3 div 365"
  define m where "m = r3 mod 365"
  have d: "r3 = 365 * q + m" "0 \<le> m" "m < 365"
    by (simp_all add: q_def m_def)
  have q: "0 \<le> q" "q \<le> 4" using d assms(1,2) by linarith+
  have n: "n1 = min 3 q" by (simp add: n1_def q_def)
  show "0 \<le> n1" "n1 \<le> 3" using q n by simp_all
  show "0 \<le> r3 - 365 * n1" using d q n by (cases "q \<le> 3") (simp_all add: min_def)
  show "r3 - 365 * n1 \<le> 365" using d q n assms(2) by (cases "q \<le> 3") (simp_all add: min_def)
  show "n1 < 3 \<Longrightarrow> r3 - 365 * n1 < 365" using d q n by (cases "q \<le> 3") (simp_all add: min_def)
  show "r3 < 1460 \<Longrightarrow> r3 - 365 * n1 < 365" using d q n by (cases "q \<le> 3") (simp_all add: min_def)
qed

lemma quad_split:
  fixes r2 :: int
  assumes "0 \<le> r2" "r2 \<le> 36524"
  shows "0 \<le> r2 div 1461" "r2 div 1461 \<le> 24" "0 \<le> r2 mod 1461" "r2 mod 1461 \<le> 1460"
    "r2 div 1461 = 24 \<Longrightarrow> r2 < 36524 \<Longrightarrow> r2 mod 1461 < 1460"
proof -
  define q where "q = r2 div 1461"
  define m where "m = r2 mod 1461"
  have d: "r2 = 1461 * q + m" "0 \<le> m" "m < 1461"
    by (simp_all add: q_def m_def)
  have q: "0 \<le> q" "q \<le> 24" using d assms(1,2) by linarith+
  show "0 \<le> r2 div 1461" "r2 div 1461 \<le> 24" using q by (simp_all add: q_def)
  show "0 \<le> r2 mod 1461" "r2 mod 1461 \<le> 1460" using d by (simp_all add: m_def)
  show "r2 div 1461 = 24 \<Longrightarrow> r2 < 36524 \<Longrightarrow> r2 mod 1461 < 1460"
    using d unfolding q_def [symmetric] m_def [symmetric] by linarith
qed

lemma YearFromTime_cycles:
  fixes t :: int
  defines "z \<equiv> Day t + 719162"
  defines "r \<equiv> z mod 146097"
  defines "n100 \<equiv> min 3 (r div 36524)"
  defines "r2 \<equiv> r - 36524 * n100"
  defines "n1 \<equiv> min 3 (r2 mod 1461 div 365)"
  shows "YearFromTime t = 1 + 400 * (z div 146097) + 100 * n100 + 4 * (r2 div 1461) + n1"
  unfolding YearFromTime_def Let_def z_def r_def n100_def r2_def n1_def ..

lemma YearFromTime_day:
  "DayFromYear (YearFromTime t) \<le> Day t
   \<and> Day t < DayFromYear (YearFromTime t) + DaysInYear (YearFromTime t)"
proof -
  define z where "z = Day t + 719162"
  define n400 where "n400 = z div 146097"
  define r where "r = z mod 146097"
  define n100 where "n100 = min 3 (r div 36524)"
  define r2 where "r2 = r - 36524 * n100"
  define n4 where "n4 = r2 div 1461"
  define r3 where "r3 = r2 mod 1461"
  define n1 where "n1 = min 3 (r3 div 365)"
  have y: "YearFromTime t = 1 + 400 * n400 + 100 * n100 + 4 * n4 + n1"
    unfolding n400_def n4_def n1_def r3_def r2_def n100_def r_def z_def
    by (rule YearFromTime_cycles)
  have r: "0 \<le> r" "r \<le> 146096" by (simp_all add: r_def)
  note c = century_split [OF r, folded n100_def, folded r2_def]
  note q = quad_split [OF c(3,4), folded n4_def r3_def]
  note a = year_split [OF q(3,4), folded n1_def]
  have z: "Day t = 146097 * n400 + r - 719162"
    by (simp add: n400_def r_def z_def)
  have r2: "r = 36524 * n100 + 1461 * n4 + r3"
    by (simp add: n4_def r3_def r2_def)
  have dfy: "DayFromYear (YearFromTime t)
      = 146097 * n400 + 36524 * n100 + 1461 * n4 + 365 * n1 - 719162"
    unfolding y using c(1,2) q(1,2) a(1,2) by (rule DayFromYear_cycles)
  have diy: "DaysInYear (YearFromTime t)
      = (if n1 = 3 \<and> (n4 \<noteq> 24 \<or> n100 = 3) then 366 else 365)"
    unfolding y using c(1,2) q(1,2) a(1,2) by (rule DaysInYear_cycles)
  have d: "Day t - DayFromYear (YearFromTime t) = r3 - 365 * n1"
    unfolding dfy z r2 by simp
  have lo: "0 \<le> r3 - 365 * n1" by (rule a(3))
  have hi: "r3 - 365 * n1 < DaysInYear (YearFromTime t)"
  proof (cases "n1 = 3 \<and> (n4 \<noteq> 24 \<or> n100 = 3)")
    case True
    then show ?thesis using a(4) by (simp add: diy)
  next
    case False
    have "r3 - 365 * n1 < 365"
    proof (cases "n1 = 3")
      case False
      then have "n1 < 3" using a(2) by simp
      then show ?thesis by (rule a(5))
    next
      case True
      then have "n4 = 24" "n100 \<noteq> 3" using False by simp_all
      then have "n4 = 24" "n100 < 3" using c(2) by simp_all
      then have "r2 < 36524" using c(5) by simp
      then have "r3 < 1460" using q(5) \<open>n4 = 24\<close> by simp
      then show ?thesis by (rule a(6))
    qed
    then show ?thesis using False by (simp add: diy)
  qed
  show ?thesis using d lo hi by simp
qed

lemma div_step:
  fixes x c :: int
  assumes "0 < c"
  shows "(x + 1) div c = x div c + (if (x + 1) mod c = 0 then 1 else 0)"
proof -
  define q where "q = x div c"
  define m where "m = x mod c"
  have d: "x = q * c + m" "0 \<le> m" "m < c"
    using assms by (simp_all add: q_def m_def)
  show ?thesis
  proof (cases "m + 1 < c")
    case True
    have x: "x + 1 = q * c + (m + 1)" using d(1) by simp
    have "(q * c + (m + 1)) div c = q" "(q * c + (m + 1)) mod c = m + 1"
      using d(2) True by (simp_all add: div_cycle mod_cycle)
    then show ?thesis using d(2) unfolding x by (simp add: q_def)
  next
    case False
    then have m: "m + 1 = c" using d(3) by linarith
    have x: "x + 1 = (q + 1) * c + 0" using d(1) m by (simp add: algebra_simps)
    have "((q + 1) * c + 0) div c = q + 1" "((q + 1) * c + 0) mod c = 0"
      using assms by (simp_all add: div_cycle mod_cycle)
    then show ?thesis unfolding x by (simp add: q_def)
  qed
qed

lemma DayFromYear_Suc: "DayFromYear (y + 1) = DayFromYear y + DaysInYear y"
proof -
  have m4: "(y - 1968) mod 4 = y mod 4"
    using mod_mult_self1 [of y "-492" 4] by simp
  have m100: "(y - 1900) mod 100 = y mod 100"
    using mod_mult_self1 [of y "-19" 100] by simp
  have m400: "(y - 1600) mod 400 = y mod 400"
    using mod_mult_self1 [of y "-4" 400] by simp
  have a: "(y + 1 - 1969) div 4 = (y - 1969) div 4 + (if y mod 4 = 0 then 1 else 0)"
    using div_step [of 4 "y - 1969"] by (simp add: m4 algebra_simps)
  have b: "(y + 1 - 1901) div 100 = (y - 1901) div 100 + (if y mod 100 = 0 then 1 else 0)"
    using div_step [of 100 "y - 1901"] by (simp add: m100 algebra_simps)
  have c: "(y + 1 - 1601) div 400 = (y - 1601) div 400 + (if y mod 400 = 0 then 1 else 0)"
    using div_step [of 400 "y - 1601"] by (simp add: m400 algebra_simps)
  have d: "y mod 100 = 0 \<Longrightarrow> y mod 4 = 0"
    using mod_mod_cancel [of 4 100 y] by simp
  have e: "y mod 400 = 0 \<Longrightarrow> y mod 100 = 0"
    using mod_mod_cancel [of 100 400 y] by simp
  show ?thesis
    unfolding DayFromYear_def DaysInYear_def a b c using d e by auto
qed

lemma DayFromYear_mono: "y \<le> y' \<Longrightarrow> DayFromYear y \<le> DayFromYear y'"
proof (induction y' rule: int_ge_induct)
  case base
  show ?case by simp
next
  case (step i)
  have "0 \<le> DaysInYear i" by (simp add: DaysInYear_def)
  then show ?case using step.IH by (simp add: DayFromYear_Suc)
qed

lemma YearFromTime_largest: "DayFromYear y \<le> Day t \<longleftrightarrow> y \<le> YearFromTime t"
proof
  assume a: "DayFromYear y \<le> Day t"
  show "y \<le> YearFromTime t"
  proof (rule ccontr)
    assume "\<not> y \<le> YearFromTime t"
    then have "YearFromTime t + 1 \<le> y" by simp
    then have "DayFromYear (YearFromTime t + 1) \<le> DayFromYear y" by (rule DayFromYear_mono)
    then show False using a YearFromTime_day [of t] by (simp add: DayFromYear_Suc)
  qed
next
  assume "y \<le> YearFromTime t"
  then have "DayFromYear y \<le> DayFromYear (YearFromTime t)" by (rule DayFromYear_mono)
  then show "DayFromYear y \<le> Day t" using YearFromTime_day [of t] by simp
qed

lemma DayWithinYear_range:
  "0 \<le> DayWithinYear t" "DayWithinYear t < 365 + InLeapYear t"
  "InLeapYear t = 0 \<or> InLeapYear t = 1"
proof -
  have "DaysInYear (YearFromTime t) = 365 + InLeapYear t"
    by (simp add: InLeapYear_def DaysInYear_def)
  then show "0 \<le> DayWithinYear t" "DayWithinYear t < 365 + InLeapYear t"
    using YearFromTime_day [of t] by (simp_all add: DayWithinYear_def)
  show "InLeapYear t = 0 \<or> InLeapYear t = 1" by (simp add: InLeapYear_def)
qed

lemma MonthFromTime_range: "0 \<le> MonthFromTime t" "MonthFromTime t \<le> 11"
  by (simp_all add: MonthFromTime_def Let_def)

lemma DateFromTime_range:
  "1 \<le> DateFromTime t"
  "DateFromTime t \<le> days_in_month (YearFromTime t) (MonthFromTime t + 1)"
proof -
  define d where "d = DayWithinYear t"
  define l where "l = InLeapYear t"
  have r: "0 \<le> d" "d < 365 + l" "l = 0 \<or> l = 1"
    using DayWithinYear_range [of t] by (simp_all add: d_def l_def)
  have leap: "DaysInYear (YearFromTime t) = 366 \<longleftrightarrow> l = 1"
    by (simp add: l_def InLeapYear_def DaysInYear_def)
  show "1 \<le> DateFromTime t"
    using r unfolding DateFromTime_def MonthFromTime_def Let_def d_def [symmetric] l_def [symmetric]
    by (simp split: if_splits)
  show "DateFromTime t \<le> days_in_month (YearFromTime t) (MonthFromTime t + 1)"
    using r unfolding DateFromTime_def MonthFromTime_def Let_def days_in_month_def leap
      d_def [symmetric] l_def [symmetric]
    by (auto split: if_splits)
qed

lemma Day_range:
  assumes "\<bar>t\<bar> \<le> maxTimeValue"
  shows "- 100000000 \<le> Day t" "Day t \<le> 100000000"
proof -
  have "- 8640000000000000 \<le> t" "t \<le> 8640000000000000"
    using assms by (simp_all add: maxTimeValue_def)
  then have "(- 8640000000000000) div 86400000 \<le> t div 86400000"
    "t div 86400000 \<le> 8640000000000000 div (86400000::int)"
    by (simp_all add: zdiv_mono1)
  then show "- 100000000 \<le> Day t" "Day t \<le> 100000000"
    by (simp_all add: Day_def msPerDay_def)
qed

lemma YearFromTime_range:
  assumes "\<bar>t\<bar> \<le> maxTimeValue"
  shows "- 271821 \<le> YearFromTime t" "YearFromTime t \<le> 275760"
proof -
  have "DayFromYear (- 271821) \<le> Day t"
    using Day_range(1) [OF assms] by (simp add: DayFromYear_def)
  then show "- 271821 \<le> YearFromTime t" by (simp only: YearFromTime_largest)
  have "\<not> DayFromYear 275761 \<le> Day t"
    using Day_range(2) [OF assms] by (simp add: DayFromYear_def)
  then have "\<not> 275761 \<le> YearFromTime t" by (simp add: YearFromTime_largest)
  then show "YearFromTime t \<le> 275760" by simp
qed

lemma digit_index:
  assumes "m < 10"
  shows "is_digit (''0123456789'' ! m)" "digit_value (''0123456789'' ! m) = int m"
    "''0123456789'' ! m \<noteq> CHR ''+''" "''0123456789'' ! m \<noteq> CHR ''-''"
proof -
  from assms consider "m = 0" | "m = 1" | "m = 2" | "m = 3" | "m = 4" | "m = 5" | "m = 6"
    | "m = 7" | "m = 8" | "m = 9" by (auto simp add: numeral_eq_Suc less_Suc_eq)
  then have "is_digit (''0123456789'' ! m) \<and> digit_value (''0123456789'' ! m) = int m
    \<and> ''0123456789'' ! m \<noteq> CHR ''+'' \<and> ''0123456789'' ! m \<noteq> CHR ''-''"
    by cases (simp_all add: is_digit_def digit_value_def)
  then show "is_digit (''0123456789'' ! m)" "digit_value (''0123456789'' ! m) = int m"
    "''0123456789'' ! m \<noteq> CHR ''+''" "''0123456789'' ! m \<noteq> CHR ''-''"
    by simp_all
qed

lemma digit_facts:
  "is_digit (digit n)" "digit_value (digit n) = n mod 10"
  "digit n \<noteq> CHR ''+''" "digit n \<noteq> CHR ''-''"
proof -
  have m: "nat (n mod 10) < 10" by simp
  show "is_digit (digit n)" "digit n \<noteq> CHR ''+''" "digit n \<noteq> CHR ''-''"
    unfolding digit_def using digit_index [OF m] by simp_all
  show "digit_value (digit n) = n mod 10"
    unfolding digit_def using digit_index(2) [OF m] by simp
qed

lemma number_pad2: "0 \<le> n \<Longrightarrow> n \<le> 99 \<Longrightarrow> number (pad2 n) = n"
  by (simp add: number_def pad2_def digit_facts(2)) 

lemma decimal_split:
  fixes n :: int
  shows "n div 100 = n div 10 div 10" "n div 1000 = n div 10 div 10 div 10"
    "n div 10000 = n div 10 div 10 div 10 div 10"
    "n div 100000 = n div 10 div 10 div 10 div 10 div 10"
  by (simp_all add: div_mult2_eq [symmetric])

lemma number_pad4: 
  assumes "0 \<le> n" "n \<le> 9999" 
  shows "number (pad4 n) = n"
proof -
  define k1 where "k1 = n div 10"
  define k2 where "k2 = k1 div 10"
  define k3 where "k3 = k2 div 10"
  define m0 where "m0 = n mod 10"
  define m1 where "m1 = k1 mod 10"
  define m2 where "m2 = k2 mod 10"
  have e: "n = 10 * k1 + m0" "k1 = 10 * k2 + m1" "k2 = 10 * k3 + m2"
    by (simp_all add: k1_def k2_def k3_def m0_def m1_def m2_def)
  have m: "0 \<le> m0" "0 \<le> m1" "0 \<le> m2" by (simp_all add: m0_def m1_def m2_def)
  have "k3 \<le> 9" using assms(2) e m by linarith
  moreover have "0 \<le> k3" using assms(1) by (simp add: k1_def k2_def k3_def)
  ultimately have k3: "k3 mod 10 = k3" by simp
  have v: "10 * (10 * (10 * k3 + m2) + m1) + m0 = n" by (simp only: e [symmetric])
  have "number (pad4 n) = 10 * (10 * (10 * (k3 mod 10) + m2) + m1) + m0"
    by (simp add: number_def pad4_def digit_facts(2) decimal_split k1_def k2_def k3_def
        m0_def m1_def m2_def)
  then show ?thesis by (simp only: k3 v)
qed

lemma number_pad6: 
  assumes "0 \<le> n" "n \<le> 999999" 
  shows "number (pad6 n) = n"
proof -
  define k1 where "k1 = n div 10"
  define k2 where "k2 = k1 div 10"
  define k3 where "k3 = k2 div 10"
  define k4 where "k4 = k3 div 10"
  define k5 where "k5 = k4 div 10"
  define m0 where "m0 = n mod 10"
  define m1 where "m1 = k1 mod 10"
  define m2 where "m2 = k2 mod 10"
  define m3 where "m3 = k3 mod 10"
  define m4 where "m4 = k4 mod 10"
  have e: "n = 10 * k1 + m0" "k1 = 10 * k2 + m1" "k2 = 10 * k3 + m2"
    "k3 = 10 * k4 + m3" "k4 = 10 * k5 + m4"
    by (simp_all add: k1_def k2_def k3_def k4_def k5_def m0_def m1_def m2_def m3_def m4_def)
  have m: "0 \<le> m0" "0 \<le> m1" "0 \<le> m2" "0 \<le> m3" "0 \<le> m4"
    by (simp_all add: m0_def m1_def m2_def m3_def m4_def)
  have "k5 \<le> 9" using assms(2) e m by linarith
  moreover have "0 \<le> k5" using assms(1) by (simp add: k1_def k2_def k3_def k4_def k5_def)
  ultimately have k5: "k5 mod 10 = k5" by simp
  have "number (pad6 n)
      = 10 * (10 * (10 * (10 * (10 * (k5 mod 10) + m4) + m3) + m2) + m1) + m0"
    by (simp add: number_def pad6_def digit_facts(2) decimal_split k1_def k2_def k3_def
        k4_def k5_def m0_def m1_def m2_def m3_def m4_def)
  moreover have "10 * (10 * (10 * (10 * (10 * k5 + m4) + m3) + m2) + m1) + m0 = n"
    by (simp only: e [symmetric])
  ultimately show ?thesis by (simp only: k5)
qed

lemma time_fields_range:
  "0 \<le> HourFromTime t" "HourFromTime t \<le> 23" "0 \<le> MinFromTime t" "MinFromTime t \<le> 59"
  "0 \<le> SecFromTime t" "SecFromTime t \<le> 59"
  by (simp_all add: HourFromTime_def MinFromTime_def SecFromTime_def)

lemma days_in_month_le: "days_in_month y m \<le> 31"
  by (simp add: days_in_month_def)

lemma is_date_time_fields:
  assumes "1 \<le> mo" "mo \<le> 12" "1 \<le> d" "d \<le> days_in_month y mo"
    and "0 \<le> h" "h \<le> 23" "0 \<le> mi" "mi \<le> 59" "0 \<le> se" "se \<le> 59"
  shows "is_date_time y (''-'' @ pad2 mo @ ''-'' @ pad2 d @ ''T'' @ pad2 h @ '':''
           @ pad2 mi @ '':'' @ pad2 se @ ''.'' @ pad3 ms @ ''Z'')"
proof -
  have d: "d \<le> 99" using assms(4) days_in_month_le [of y mo] by linarith
  have n: "number [digit (mo div 10), digit mo] = mo" "number [digit (d div 10), digit d] = d"
    "number [digit (h div 10), digit h] = h" "number [digit (mi div 10), digit mi] = mi"
    "number [digit (se div 10), digit se] = se"
    using assms d number_pad2 [of mo] number_pad2 [of d] number_pad2 [of h]
      number_pad2 [of mi] number_pad2 [of se]
    by (simp_all add: pad2_def)
  show ?thesis
    using assms by (simp add: is_date_time_def pad2_def pad3_def n digit_facts(1))
qed

lemma toISOString_valid:
  assumes "\<bar>t\<bar> \<le> maxTimeValue"
  shows "is_iso8601 (toISOString t)"
proof -
  define y where "y = YearFromTime t"
  define rest where "rest = ''-'' @ pad2 (MonthFromTime t + 1) @ ''-''
       @ pad2 (DateFromTime t) @ ''T'' @ pad2 (HourFromTime t) @ '':''
       @ pad2 (MinFromTime t) @ '':'' @ pad2 (SecFromTime t) @ ''.''
       @ pad3 (msFromTime t) @ ''Z''"
  have s: "toISOString t = year_string y @ rest"
    by (simp add: toISOString_def y_def rest_def)
  have r: "is_date_time y rest"
    unfolding rest_def y_def
    using MonthFromTime_range [of t] DateFromTime_range [of t] time_fields_range [of t]
    by (intro is_date_time_fields) simp_all
  have len: "length rest = 20" using r by (simp add: is_date_time_def)
  have y: "- 271821 \<le> y" "y \<le> 275760"
    using YearFromTime_range [OF assms] by (simp_all add: y_def)
  consider "0 \<le> y" "y \<le> 9999" | "y < 0" | "9999 < y" by linarith
  then show ?thesis
  proof cases
    case 1
    then have "year_string y = pad4 y" by (simp add: year_string_def)
    moreover have "number (pad4 y) = y" using 1 by (rule number_pad4)
    moreover have "take 4 (pad4 y @ rest) = pad4 y" "drop 4 (pad4 y @ rest) = rest"
      by (simp_all add: pad4_def)
    moreover have "list_all is_digit (pad4 y)" by (simp add: pad4_def digit_facts(1))
    ultimately show ?thesis
      using r len unfolding s is_iso8601_def
      by (simp add: pad4_def digit_facts(3,4))
  next
    case 2
    then have "year_string y = CHR ''-'' # pad6 (- y)" by (simp add: year_string_def)
    moreover have "number (pad6 (- y)) = - y" using 2 y by (intro number_pad6) simp_all
    moreover have "take 6 (pad6 (- y) @ rest) = pad6 (- y)" "drop 6 (pad6 (- y) @ rest) = rest"
      by (simp_all add: pad6_def)
    moreover have "list_all is_digit (pad6 (- y))" by (simp add: pad6_def digit_facts(1))
    moreover have "length (pad6 (- y)) = 6" by (simp add: pad6_def)
    ultimately show ?thesis
      using r len 2 unfolding s is_iso8601_def by simp
  next
    case 3
    then have "year_string y = CHR ''+'' # pad6 y" by (simp add: year_string_def)
    moreover have "number (pad6 y) = y" using 3 y by (intro number_pad6) simp_all
    moreover have "take 6 (pad6 y @ rest) = pad6 y" "drop 6 (pad6 y @ rest) = rest"
      by (simp_all add: pad6_def)
    moreover have "list_all is_digit (pad6 y)" by (simp add: pad6_def digit_facts(1))
    moreover have "length (pad6 y) = 6" by (simp add: pad6_def)
    ultimately show ?thesis
      using r len unfolding s is_iso8601_def by simp
  qed
qed


section \<open>What each handler computes\<close>

lemma logged_simps [simp]:
  "table (logged s r) = table s"
  "healthy (logged s r) = healthy s"
  "reserved (logged s r) = reserved s"
  "calls (logged s r) = calls s @ [r]"
  by (simp_all add: logged_def)

lemma key_of_path:
  "key_of [(''ItemID'', Str k)] = (if k = [] then Inl ValidationException else Inr k)"
  by (simp add: key_of_def marshal_def)

lemma key_of_Item:
  "key_of [(''ItemID'', v), (''Name'', n), (''Description'', d), (''CreatedAt'', c)] =
     (case v of
        Str k \<Rightarrow> if k = [] then Inl ValidationException else Inr k
      | _ \<Rightarrow> Inl ValidationException)"
  by (cases v) (simp_all add: key_of_def marshal_def)

text \<open>Create: one \<open>put\<close>, accepted when the store answers and \<open>ItemID\<close> is a
  non-empty string.\<close>

lemma CreateItem_result:
  assumes "event.body ev = Json b" and "get_prop b ''ItemID'' = Inr i"
    and "get_prop b ''Name'' = Inr n" and "get_prop b ''Description'' = Inr d"
  shows "CreateItem s now ev =
     (let Item = [(''ItemID'', i), (''Name'', n), (''Description'', d),
                  (''CreatedAt'', Str (toISOString now))]
      in if healthy s \<and> (\<exists>k. i = Str k \<and> k \<noteq> [])
         then (logged s (PutRequest Item)\<lparr>table := (table s)(ToString i \<mapsto> marshal Item)\<rparr>,
               Returned \<lparr>statusCode = 201, body = message ''Item created successfully''\<rparr>)
         else (logged s (PutRequest Item),
               Returned \<lparr>statusCode = 500, body = error ''Could not create item''\<rparr>))"
  using assms
  by (cases i) (simp_all add: CreateItem_def JSON_parse_def dynamoDb_put_def key_of_Item Let_def)

lemma ReadItem_result:
  assumes "get_prop (pathParameters ev) ''ItemID'' = Inr (Str k)"
  shows "ReadItem s ev =
     (logged s (GetRequest [(''ItemID'', Str k)]),
      if healthy s \<and> k \<noteq> []
      then (case table s k of
              None \<Rightarrow> Returned \<lparr>statusCode = 404, body = message ''Item not found''\<rparr>
            | Some it \<Rightarrow> Returned \<lparr>statusCode = 200, body = Obj it\<rparr>)
      else Returned \<lparr>statusCode = 500, body = error ''Could not retrieve item''\<rparr>)"
  using assms
  by (simp add: ReadItem_def dynamoDb_get_def key_of_path Let_def split: option.splits)

text \<open>Update: one \<open>update\<close>, accepted when the store answers, the key is a non-empty
  string, neither attribute name is reserved and both values are given.\<close>

lemma UpdateItem_result:
  assumes "get_prop (pathParameters ev) ''ItemID'' = Inr (Str k)"
    and "event.body ev = Json b"
    and "get_prop b ''Name'' = Inr n" and "get_prop b ''Description'' = Inr d"
  shows "UpdateItem s ev =
     (let r = UpdateRequest [(''ItemID'', Str k)]
                [(''Name'', '':name''), (''Description'', '':description'')]
                [('':name'', n), ('':description'', d)];
          old = (case table s k of None \<Rightarrow> [(''ItemID'', Str k)] | Some it \<Rightarrow> it);
          new = AList.update ''Description'' d (AList.update ''Name'' n old)
      in if healthy s \<and> k \<noteq> [] \<and> \<not> is_reserved s ''Name''
            \<and> \<not> is_reserved s ''Description'' \<and> n \<noteq> Undefined \<and> d \<noteq> Undefined
         then (logged s r\<lparr>table := (table s)(k \<mapsto> new)\<rparr>,
               Returned \<lparr>statusCode = 200, body = Obj new\<rparr>)
         else (logged s r,
               Returned \<lparr>statusCode = 500, body = error ''Could not update item''\<rparr>))"
  using assms
  by (auto simp add: UpdateItem_def JSON_parse_def dynamoDb_update_def key_of_path Let_def
      set_clause_ok_def apply_set_def marshal_def)

lemma DeleteItem_result:
  assumes "get_prop (pathParameters ev) ''ItemID'' = Inr (Str k)"
  shows "DeleteItem s ev =
     (if healthy s \<and> k \<noteq> []
      then (logged s (DeleteRequest [(''ItemID'', Str k)])\<lparr>table := (table s)(k := None)\<rparr>,
            Returned \<lparr>statusCode = 200, body = message ''Item deleted successfully''\<rparr>)
      else (logged s (DeleteRequest [(''ItemID'', Str k)]),
            Returned \<lparr>statusCode = 500, body = error ''Could not delete item''\<rparr>))"
  using assms by (simp add: DeleteItem_def dynamoDb_delete_def key_of_path Let_def)


section \<open>The claims\<close>

lemma toISOString_samples:
  "toISOString 0 = ''1970-01-01T00:00:00.000Z''"
  "toISOString 1793701234567 = ''2026-11-03T10:20:34.567Z''"
  "toISOString 1800000000000 = ''2027-01-15T08:00:00.000Z''"
  by code_simp+

text \<open>
  C1. On a store that answers, Create with a non-empty string id, a name and a
  description, followed by Read of the same id, returns the record with that name and
  description; its \<^verbatim>\<open>CreatedAt\<close> is the ISO 8601 rendering of the clock at the time of
  the create, whatever else the request body holds.
\<close>

theorem create_then_read:
  assumes "healthy s" and "\<bar>now\<bar> \<le> maxTimeValue"
    and "event.body ev = Json (Obj ps)"
    and "map_of ps ''ItemID'' = Some (Str k)" and "k \<noteq> []"
    and "map_of ps ''Name'' = Some (Str n)" and "map_of ps ''Description'' = Some (Str d)"
    and "get_prop (pathParameters ev') ''ItemID'' = Inr (Str k)"
  shows "snd (CreateItem s now ev)
           = Returned \<lparr>statusCode = 201, body = message ''Item created successfully''\<rparr>
       \<and> snd (ReadItem (fst (CreateItem s now ev)) ev')
           = Returned \<lparr>statusCode = 200,
               body = Obj [(''ItemID'', Str k), (''Name'', Str n), (''Description'', Str d),
                           (''CreatedAt'', Str (toISOString now))]\<rparr>
       \<and> is_iso8601 (toISOString now)"
  using assms(1,3-7) toISOString_valid [OF assms(2)]
  by (simp add: CreateItem_result [where b = "Obj ps"] ReadItem_result [OF assms(8)]
      Let_def marshal_def)

theorem create_then_read_witness:
  "healthy empty_store \<and> \<bar>1793701234567\<bar> \<le> maxTimeValue
   \<and> snd (CreateItem empty_store 1793701234567
        (create_request (Obj [(''ItemID'', Str ''42''), (''Name'', Str ''Widget''),
           (''Description'', Str ''A widget''),
           (''CreatedAt'', Str ''1999-12-31T00:00:00.000Z'')])))
       = Returned \<lparr>statusCode = 201, body = message ''Item created successfully''\<rparr>
   \<and> snd (ReadItem (fst (CreateItem empty_store 1793701234567
        (create_request (Obj [(''ItemID'', Str ''42''), (''Name'', Str ''Widget''),
           (''Description'', Str ''A widget''),
           (''CreatedAt'', Str ''1999-12-31T00:00:00.000Z'')])))) (item_request ''42''))
       = Returned \<lparr>statusCode = 200,
           body = Obj [(''ItemID'', Str ''42''), (''Name'', Str ''Widget''),
                       (''Description'', Str ''A widget''),
                       (''CreatedAt'', Str ''2026-11-03T10:20:34.567Z'')]\<rparr>
   \<and> is_iso8601 ''2026-11-03T10:20:34.567Z''"
  using create_then_read [of empty_store 1793701234567
      "create_request (Obj [(''ItemID'', Str ''42''), (''Name'', Str ''Widget''),
           (''Description'', Str ''A widget''),
           (''CreatedAt'', Str ''1999-12-31T00:00:00.000Z'')])"
      "[(''ItemID'', Str ''42''), (''Name'', Str ''Widget''),
           (''Description'', Str ''A widget''),
           (''CreatedAt'', Str ''1999-12-31T00:00:00.000Z'')]"
      "''42''" "''Widget''" "''A widget''" "item_request ''42''"]
  by (simp add: empty_store_def create_request_def item_request_def maxTimeValue_def
      toISOString_samples)

text \<open>
  C2. An update of a stored record leaves every attribute of the record other than
  \<^verbatim>\<open>Name\<close> and \<^verbatim>\<open>Description\<close> as it was, \<^verbatim>\<open>ItemID\<close> and \<^verbatim>\<open>CreatedAt\<close> among
  them, whatever the request body and whether or not the store accepts the update.
\<close>

theorem update_frame:
  assumes "table s k = Some it"
    and "get_prop (pathParameters ev) ''ItemID'' = Inr (Str k)"
  shows "\<exists>it'. table (fst (UpdateItem s ev)) k = Some it'
           \<and> map_of it' ''ItemID'' = map_of it ''ItemID''
           \<and> map_of it' ''CreatedAt'' = map_of it ''CreatedAt''
           \<and> (\<forall>a. a \<noteq> ''Name'' \<and> a \<noteq> ''Description'' \<longrightarrow> map_of it' a = map_of it a)"
proof (cases "JSON_parse (event.body ev)")
  case (Inl e)
  then have "UpdateItem s ev = (s, Thrown e)"
    using assms(2) by (simp add: UpdateItem_def)
  then show ?thesis using assms(1) by simp
next
  case (Inr b)
  then have b: "event.body ev = Json b"
    by (simp add: JSON_parse_def split: body_text.splits)
  show ?thesis
  proof (cases "get_prop b ''Name''")
    case (Inl e)
    then have "UpdateItem s ev = (s, Thrown e)"
      using assms(2) Inr by (simp add: UpdateItem_def)
    then show ?thesis using assms(1) by simp
  next
    case n: (Inr n)
    then obtain d where d: "get_prop b ''Description'' = Inr d"
      by (cases b) auto
    show ?thesis
      using assms(1)
      by (simp add: UpdateItem_result [OF assms(2) b n d] Let_def update_conv')
  qed
qed

theorem update_frame_witness:
  "table widget_store ''42'' = Some widget
   \<and> get_prop (pathParameters (update_request ''42''
          (Obj [(''Name'', Str ''Widget2''), (''Description'', Str ''Updated'')])))
        ''ItemID'' = Inr (Str ''42'')
   \<and> table (fst (UpdateItem widget_store (update_request ''42''
          (Obj [(''Name'', Str ''Widget2''), (''Description'', Str ''Updated'')])))) ''42''
       = Some [(''ItemID'', Str ''42''), (''Name'', Str ''Widget2''),
               (''Description'', Str ''Updated''),
               (''CreatedAt'', Str ''2026-11-03T10:20:34.567Z'')]"
  using update_frame [of widget_store "''42''" widget "update_request ''42''
          (Obj [(''Name'', Str ''Widget2''), (''Description'', Str ''Updated'')])"]
  by (simp add: UpdateItem_result [where k = "''42''" and b = "Obj [(''Name'', Str ''Widget2''),
        (''Description'', Str ''Updated'')]"]
      widget_store_def widget_def update_request_def is_reserved_def Let_def)

text \<open>
  C3. Deleting by a non-empty id succeeds on a store that answers, whether or not the
  key is there: the response is the success message, a key that was absent leaves the
  table as it was, and a second delete of the same id succeeds again. The failure
  response comes only from a store that does not answer.
\<close>

theorem delete_idempotent:
  assumes "get_prop (pathParameters ev) ''ItemID'' = Inr (Str k)" and "k \<noteq> []"
  shows "(healthy s \<longrightarrow>
            snd (DeleteItem s ev)
              = Returned \<lparr>statusCode = 200, body = message ''Item deleted successfully''\<rparr>
          \<and> table (fst (DeleteItem s ev)) k = None
          \<and> (table s k = None \<longrightarrow> table (fst (DeleteItem s ev)) = table s)
          \<and> snd (DeleteItem (fst (DeleteItem s ev)) ev)
              = Returned \<lparr>statusCode = 200, body = message ''Item deleted successfully''\<rparr>)
       \<and> (snd (DeleteItem s ev)
              = Returned \<lparr>statusCode = 500, body = error ''Could not delete item''\<rparr>
            \<longleftrightarrow> \<not> healthy s)"
  using assms by (auto simp add: DeleteItem_result fun_upd_idem)

theorem delete_idempotent_witness:
  "get_prop (pathParameters (item_request ''42'')) ''ItemID'' = Inr (Str ''42'')
   \<and> ''42'' \<noteq> []
   \<and> healthy widget_store
   \<and> table widget_store ''42'' = Some widget
   \<and> snd (DeleteItem widget_store (item_request ''42''))
       = Returned \<lparr>statusCode = 200, body = message ''Item deleted successfully''\<rparr>
   \<and> table (fst (DeleteItem widget_store (item_request ''42''))) ''42'' = None
   \<and> snd (DeleteItem (fst (DeleteItem widget_store (item_request ''42''))) (item_request ''42''))
       = Returned \<lparr>statusCode = 200, body = message ''Item deleted successfully''\<rparr>"
  using delete_idempotent [of "item_request ''42''" "''42''" widget_store]
  by (simp add: item_request_def widget_store_def)

text \<open>
  C4. Reading a non-empty id: on a store that answers, an absent key gives the
  not-found response (status 404); that response is given in no other case, and the
  failure response (status 500) is given exactly when the store does not answer.
\<close>

theorem read_absent_not_found:
  assumes "get_prop (pathParameters ev) ''ItemID'' = Inr (Str k)" and "k \<noteq> []"
  shows "(healthy s \<and> table s k = None \<longrightarrow>
            snd (ReadItem s ev)
              = Returned \<lparr>statusCode = 404, body = message ''Item not found''\<rparr>)
       \<and> (snd (ReadItem s ev) = Returned \<lparr>statusCode = 404, body = message ''Item not found''\<rparr>
            \<longrightarrow> healthy s \<and> table s k = None)
       \<and> (snd (ReadItem s ev)
              = Returned \<lparr>statusCode = 500, body = error ''Could not retrieve item''\<rparr>
            \<longleftrightarrow> \<not> healthy s)"
  using assms by (auto simp add: ReadItem_result split: option.splits)

theorem read_absent_not_found_witness:
  "get_prop (pathParameters (item_request ''42'')) ''ItemID'' = Inr (Str ''42'')
   \<and> ''42'' \<noteq> []
   \<and> healthy empty_store
   \<and> table empty_store ''42'' = None
   \<and> snd (ReadItem empty_store (item_request ''42''))
       = Returned \<lparr>statusCode = 404, body = message ''Item not found''\<rparr>
   \<and> snd (ReadItem empty_store (item_request ''42''))
       \<noteq> Returned \<lparr>statusCode = 500, body = error ''Could not retrieve item''\<rparr>"
  using read_absent_not_found [of "item_request ''42''" "''42''" empty_store]
  by (simp add: item_request_def empty_store_def)

text \<open>
  C5. Create on a key that already holds a record: the put is unconditional. The
  response is the success message and the key now holds exactly the record built from
  the request and the clock; nothing of the old record, its \<^verbatim>\<open>CreatedAt\<close> included,
  remains.
\<close>

theorem create_overwrites:
  assumes "healthy s" and "event.body ev = Json (Obj ps)"
    and "map_of ps ''ItemID'' = Some (Str k)" and "k \<noteq> []"
    and "map_of ps ''Name'' = Some (Str n)" and "map_of ps ''Description'' = Some (Str d)"
    and "table s k = Some old"
  shows "snd (CreateItem s now ev)
           = Returned \<lparr>statusCode = 201, body = message ''Item created successfully''\<rparr>
       \<and> table (fst (CreateItem s now ev)) k
           = Some [(''ItemID'', Str k), (''Name'', Str n), (''Description'', Str d),
                   (''CreatedAt'', Str (toISOString now))]"
  using assms(1-6)
  by (simp add: CreateItem_result [where b = "Obj ps"] Let_def marshal_def)

theorem create_overwrites_witness:
  "healthy widget_store
   \<and> table widget_store ''42'' = Some widget
   \<and> map_of widget ''CreatedAt'' = Some (Str ''2026-11-03T10:20:34.567Z'')
   \<and> snd (CreateItem widget_store 1800000000000
        (create_request (Obj [(''ItemID'', Str ''42''), (''Name'', Str ''Gadget''),
           (''Description'', Str ''A gadget'')])))
       = Returned \<lparr>statusCode = 201, body = message ''Item created successfully''\<rparr>
   \<and> table (fst (CreateItem widget_store 1800000000000
        (create_request (Obj [(''ItemID'', Str ''42''), (''Name'', Str ''Gadget''),
           (''Description'', Str ''A gadget'')])))) ''42''
       = Some [(''ItemID'', Str ''42''), (''Name'', Str ''Gadget''),
               (''Description'', Str ''A gadget''),
               (''CreatedAt'', Str ''2027-01-15T08:00:00.000Z'')]"
  using create_overwrites [of widget_store
      "create_request (Obj [(''ItemID'', Str ''42''), (''Name'', Str ''Gadget''),
           (''Description'', Str ''A gadget'')])"
      "[(''ItemID'', Str ''42''), (''Name'', Str ''Gadget''), (''Description'', Str ''A gadget'')]"
      "''42''" "''Gadget''" "''A gadget''" widget 1800000000000]
  by (simp add: widget_store_def widget_def create_request_def toISOString_samples)

text \<open>
  C6. A request body that is not JSON makes \<^verbatim>\<open>JSON.parse\<close> throw before the
  \<^verbatim>\<open>try\<close> block is entered: CreateItem and UpdateItem end with the SyntaxError
  instead of a response. ReadItem and DeleteItem end with a TypeError when the event
  has no path parameters.
\<close>

theorem malformed_request_throws:
  "CreateItem s now \<lparr>event.body = NotJson, pathParameters = Null\<rparr> = (s, Thrown SyntaxError)
   \<and> UpdateItem s \<lparr>event.body = NotJson, pathParameters = Obj [(''ItemID'', Str ''42'')]\<rparr>
       = (s, Thrown SyntaxError)
   \<and> ReadItem s \<lparr>event.body = Json Null, pathParameters = Null\<rparr> = (s, Thrown TypeError)
   \<and> DeleteItem s \<lparr>event.body = Json Null, pathParameters = Null\<rparr> = (s, Thrown TypeError)"
  by (simp add: CreateItem_def UpdateItem_def ReadItem_def DeleteItem_def JSON_parse_def)

text \<open>
  C7, as the code has it. A create request whose body is an object without
  \<^verbatim>\<open>ItemID\<close>, or with the empty string for it, is not checked by the handler: the
  put request is handed to the store, the store rejects it, no record is written and the
  response is the same failure response as for any rejected put.
\<close>

theorem create_without_id:
  assumes "event.body ev = Json (Obj ps)"
    and "map_of ps ''ItemID'' = None \<or> map_of ps ''ItemID'' = Some (Str [])"
  shows "(\<exists>Item. calls (fst (CreateItem s now ev)) = calls s @ [PutRequest Item])
       \<and> table (fst (CreateItem s now ev)) = table s
       \<and> snd (CreateItem s now ev)
           = Returned \<lparr>statusCode = 500, body = error ''Could not create item''\<rparr>"
  using assms
  by (auto simp add: CreateItem_result [where b = "Obj ps"] Let_def)

theorem create_without_id_witness:
  "event.body (create_request (Obj [(''ItemID'', Str []), (''Name'', Str ''Widget'')]))
       = Json (Obj [(''ItemID'', Str []), (''Name'', Str ''Widget'')])
   \<and> map_of [(''ItemID'', Str []), (''Name'', Str ''Widget'')] ''ItemID'' = Some (Str [])
   \<and> table (fst (CreateItem widget_store 0
         (create_request (Obj [(''ItemID'', Str []), (''Name'', Str ''Widget'')]))))
       = table widget_store
   \<and> snd (CreateItem widget_store 0
         (create_request (Obj [(''ItemID'', Str []), (''Name'', Str ''Widget'')])))
       = Returned \<lparr>statusCode = 500, body = error ''Could not create item''\<rparr>"
  using create_without_id [of
      "create_request (Obj [(''ItemID'', Str []), (''Name'', Str ''Widget'')])"
      "[(''ItemID'', Str []), (''Name'', Str ''Widget'')]" widget_store 0]
  by (simp add: create_request_def)

text \<open>
  C7 as stated fails: for a body without \<^verbatim>\<open>ItemID\<close> the put request is handed to the
  store, and the response is the one a store that does not answer produces as well.
\<close>

theorem create_without_id_calls_store:
  "calls (fst (CreateItem empty_store 0 (create_request (Obj [(''Name'', Str ''Widget'')]))))
       = [PutRequest [(''ItemID'', Undefined), (''Name'', Str ''Widget''),
                      (''Description'', Undefined),
                      (''CreatedAt'', Str ''1970-01-01T00:00:00.000Z'')]]
   \<and> snd (CreateItem empty_store 0 (create_request (Obj [(''Name'', Str ''Widget'')])))
       = Returned \<lparr>statusCode = 500, body = error ''Could not create item''\<rparr>
   \<and> snd (CreateItem (empty_store\<lparr>healthy := False\<rparr>) 0
         (create_request (Obj [(''ItemID'', Str ''42''), (''Name'', Str ''Widget'')])))
       = Returned \<lparr>statusCode = 500, body = error ''Could not create item''\<rparr>"
  by (simp add: CreateItem_result [where b = "Obj [(''Name'', Str ''Widget'')]"]
      CreateItem_result [where b = "Obj [(''ItemID'', Str ''42''), (''Name'', Str ''Widget'')]"]
      create_request_def empty_store_def toISOString_samples Let_def)

text \<open>
  C8, as the code has it. An update of an id that has no record has two outcomes and
  no third: when the store accepts the request (it answers, the id is not empty, neither
  attribute name is a reserved word and both values are given) the response is the
  success response with a record made of the id, the name and the description, which is
  now stored; otherwise the response is the same failure response as for any rejected
  update, and the table is unchanged.
\<close>

theorem update_absent:
  assumes "table s k = None"
    and "get_prop (pathParameters ev) ''ItemID'' = Inr (Str k)"
    and "event.body ev = Json (Obj ps)"
    and "map_of ps ''Name'' = Some n" and "map_of ps ''Description'' = Some d"
  shows "if healthy s \<and> k \<noteq> [] \<and> \<not> is_reserved s ''Name'' \<and> \<not> is_reserved s ''Description''
            \<and> n \<noteq> Undefined \<and> d \<noteq> Undefined
         then snd (UpdateItem s ev)
                = Returned \<lparr>statusCode = 200,
                    body = Obj [(''ItemID'', Str k), (''Name'', n), (''Description'', d)]\<rparr>
              \<and> table (fst (UpdateItem s ev)) k
                = Some [(''ItemID'', Str k), (''Name'', n), (''Description'', d)]
         else snd (UpdateItem s ev)
                = Returned \<lparr>statusCode = 500, body = error ''Could not update item''\<rparr>
              \<and> table (fst (UpdateItem s ev)) = table s"
  using assms(1,4,5)
  by (simp add: UpdateItem_result [OF assms(2,3), of n d] Let_def)

theorem update_absent_witness:
  "table reserving_store ''42'' = None
   \<and> is_reserved reserving_store ''Name''
   \<and> snd (UpdateItem reserving_store (update_request ''42''
          (Obj [(''Name'', Str ''Widget2''), (''Description'', Str ''Updated'')])))
       = Returned \<lparr>statusCode = 500, body = error ''Could not update item''\<rparr>
   \<and> table (fst (UpdateItem reserving_store (update_request ''42''
          (Obj [(''Name'', Str ''Widget2''), (''Description'', Str ''Updated'')]))))
       = table reserving_store"
  using update_absent [of reserving_store "''42''" "update_request ''42''
          (Obj [(''Name'', Str ''Widget2''), (''Description'', Str ''Updated'')])"
      "[(''Name'', Str ''Widget2''), (''Description'', Str ''Updated'')]"
      "Str ''Widget2''" "Str ''Updated''"]
  by (simp add: reserving_store_def update_request_def is_reserved_def upper_char_def)

text \<open>
  C8 as stated fails. On a store that reserves no word, the update of an id without a
  stored item is answered as a success and leaves an item without \<^verbatim>\<open>CreatedAt\<close>
  behind. On a store that reserves \<^verbatim>\<open>NAME\<close> it is answered with the failure response,
  the one that a store which does not answer produces for a stored item as well.
\<close>

theorem update_absent_no_not_found:
  "table empty_store ''42'' = None
   \<and> snd (UpdateItem empty_store (update_request ''42''
          (Obj [(''Name'', Str ''Widget2''), (''Description'', Str ''Updated'')])))
       = Returned \<lparr>statusCode = 200,
           body = Obj [(''ItemID'', Str ''42''), (''Name'', Str ''Widget2''),
                       (''Description'', Str ''Updated'')]\<rparr>
   \<and> table (fst (UpdateItem empty_store (update_request ''42''
          (Obj [(''Name'', Str ''Widget2''), (''Description'', Str ''Updated'')])))) ''42''
       = Some [(''ItemID'', Str ''42''), (''Name'', Str ''Widget2''),
               (''Description'', Str ''Updated'')]
   \<and> table reserving_store ''42'' = None
   \<and> snd (UpdateItem reserving_store (update_request ''42''
          (Obj [(''Name'', Str ''Widget2''), (''Description'', Str ''Updated'')])))
       = Returned \<lparr>statusCode = 500, body = error ''Could not update item''\<rparr>
   \<and> table (widget_store\<lparr>healthy := False\<rparr>) ''42'' = Some widget
   \<and> snd (UpdateItem (widget_store\<lparr>healthy := False\<rparr>) (update_request ''42''
          (Obj [(''Name'', Str ''Widget2''), (''Description'', Str ''Updated'')])))
       = Returned \<lparr>statusCode = 500, body = error ''Could not update item''\<rparr>"
  by (simp add: UpdateItem_result [where k = "''42''" and b = "Obj [(''Name'', Str ''Widget2''),
        (''Description'', Str ''Updated'')]"]
      empty_store_def reserving_store_def widget_store_def update_request_def
      is_reserved_def upper_char_def Let_def)

text \<open>
  C9. On a store that answers, Create, then Delete, then Read of the same non-empty id:
  the create and the delete succeed, the key is absent afterwards and the read gives the
  not-found response.
\<close>

theorem create_delete_read:
  assumes "healthy s" and "event.body ev = Json (Obj ps)"
    and "map_of ps ''ItemID'' = Some (Str k)" and "k \<noteq> []"
    and "get_prop (pathParameters ev1) ''ItemID'' = Inr (Str k)"
    and "get_prop (pathParameters ev2) ''ItemID'' = Inr (Str k)"
  shows "snd (CreateItem s now ev)
           = Returned \<lparr>statusCode = 201, body = message ''Item created successfully''\<rparr>
       \<and> table (fst (CreateItem s now ev)) k \<noteq> None
       \<and> snd (DeleteItem (fst (CreateItem s now ev)) ev1)
           = Returned \<lparr>statusCode = 200, body = message ''Item deleted successfully''\<rparr>
       \<and> table (fst (DeleteItem (fst (CreateItem s now ev)) ev1)) k = None
       \<and> snd (ReadItem (fst (DeleteItem (fst (CreateItem s now ev)) ev1)) ev2)
           = Returned \<lparr>statusCode = 404, body = message ''Item not found''\<rparr>"
proof -
  obtain Item where c: "CreateItem s now ev =
      (logged s (PutRequest Item)\<lparr>table := (table s)(k \<mapsto> marshal Item)\<rparr>,
       Returned \<lparr>statusCode = 201, body = message ''Item created successfully''\<rparr>)"
    using assms(1-4) by (simp add: CreateItem_result [where b = "Obj ps"] Let_def)
  show ?thesis
    using assms(1,4)
    by (simp add: c DeleteItem_result [OF assms(5)] ReadItem_result [OF assms(6)])
qed

theorem create_delete_read_witness:
  "healthy empty_store
   \<and> snd (CreateItem empty_store 1793701234567
         (create_request (Obj [(''ItemID'', Str ''42''), (''Name'', Str ''Widget''),
            (''Description'', Str ''A widget'')])))
       = Returned \<lparr>statusCode = 201, body = message ''Item created successfully''\<rparr>
   \<and> snd (DeleteItem (fst (CreateItem empty_store 1793701234567
         (create_request (Obj [(''ItemID'', Str ''42''), (''Name'', Str ''Widget''),
            (''Description'', Str ''A widget'')])))) (item_request ''42''))
       = Returned \<lparr>statusCode = 200, body = message ''Item deleted successfully''\<rparr>
   \<and> snd (ReadItem (fst (DeleteItem (fst (CreateItem empty_store 1793701234567
         (create_request (Obj [(''ItemID'', Str ''42''), (''Name'', Str ''Widget''),
            (''Description'', Str ''A widget'')])))) (item_request ''42''))) (item_request ''42''))
       = Returned \<lparr>statusCode = 404, body = message ''Item not found''\<rparr>"
  using create_delete_read [of empty_store
      "create_request (Obj [(''ItemID'', Str ''42''), (''Name'', Str ''Widget''),
            (''Description'', Str ''A widget'')])"
      "[(''ItemID'', Str ''42''), (''Name'', Str ''Widget''), (''Description'', Str ''A widget'')]"
      "''42''" "item_request ''42''" "item_request ''42''" 1793701234567]
  by (simp add: empty_store_def create_request_def item_request_def)

lemma item_markup_not_message: "item_markup i n d \<noteq> ''Item not found''"
  by (simp add: item_markup_def)

text \<open>
  C10. The page shows the fields of a fetched record exactly when its \<^verbatim>\<open>name\<close> is
  truthy. A record whose \<^verbatim>\<open>name\<close> is absent or the empty string is shown as
  \<^verbatim>\<open>Item not found\<close>, which is also what the not-found response of ReadItem is shown
  as.
\<close>

theorem load_item_needs_name:
  assumes "i \<noteq> []" and "fetch (apiBaseUrl @ ''/'' @ i) = JsonResponse (Obj ps)"
  shows "(map_of ps ''name'' = None \<or> map_of ps ''name'' = Some (Str [])
            \<longrightarrow> load_item (Some i) fetch html = (''Item not found'', Completed))
       \<and> (Obj ps = message ''Item not found''
            \<longrightarrow> load_item (Some i) fetch html = (''Item not found'', Completed))
       \<and> (fst (load_item (Some i) fetch html) \<noteq> ''Item not found''
            \<longleftrightarrow> (\<exists>v. map_of ps ''name'' = Some v \<and> truthy v))
       \<and> (\<forall>v. map_of ps ''name'' = Some v \<and> truthy v \<longrightarrow>
             load_item (Some i) fetch html
               = (item_markup (case map_of ps ''id'' of None \<Rightarrow> Undefined | Some x \<Rightarrow> x) v
                    (case map_of ps ''description'' of None \<Rightarrow> Undefined | Some x \<Rightarrow> x),
                  Completed))"
  using assms
  by (auto simp add: load_item_def item_markup_not_message message_def split: option.splits)

theorem load_item_needs_name_witness:
  "''42'' \<noteq> []
   \<and> (\<lambda>u. JsonResponse (Obj [(''id'', Str ''42''), (''name'', Str []),
          (''description'', Str ''A widget'')])) (apiBaseUrl @ ''/'' @ ''42'')
       = JsonResponse (Obj [(''id'', Str ''42''), (''name'', Str []),
          (''description'', Str ''A widget'')])
   \<and> map_of [(''id'', Str ''42''), (''name'', Str []), (''description'', Str ''A widget'')]
         ''name'' = Some (Str [])
   \<and> load_item (Some ''42'')
         (\<lambda>u. JsonResponse (Obj [(''id'', Str ''42''), (''name'', Str []),
            (''description'', Str ''A widget'')])) ''''
       = (''Item not found'', Completed)"
  using load_item_needs_name [of "''42''"
      "\<lambda>u. JsonResponse (Obj [(''id'', Str ''42''), (''name'', Str []),
            (''description'', Str ''A widget'')])"
      "[(''id'', Str ''42''), (''name'', Str []), (''description'', Str ''A widget'')]" "''''"]
  by simp

text \<open>
  The records that ReadItem returns carry the attributes \<^verbatim>\<open>ItemID\<close>, \<^verbatim>\<open>Name\<close>,
  \<^verbatim>\<open>Description\<close> and \<^verbatim>\<open>CreatedAt\<close>; the page reads \<^verbatim>\<open>id\<close>, \<^verbatim>\<open>name\<close> and
  \<^verbatim>\<open>description\<close>. So the page shows a record written by CreateItem as
  \<^verbatim>\<open>Item not found\<close> too.
\<close>

lemma load_item_of_created:
  assumes "i \<noteq> []"
    and "fetch (apiBaseUrl @ ''/'' @ i)
           = JsonResponse (Obj [(''ItemID'', Str k), (''Name'', Str n), (''Description'', Str d),
                                (''CreatedAt'', Str c)])"
  shows "load_item (Some i) fetch html = (''Item not found'', Completed)"
  using assms by (simp add: load_item_def)

end
